theory Spec2Isabelle
  imports Complex_Main
begin

section \<open>Radial bar-chart glyphs of a monthly calendar (www/glyph\_calendar.js)\<close>

text \<open>
  The program draws, for each of the 35 cells of a calendar month, one glyph: an SVG
  element holding circles, rectangles and a text label. The embedding below follows
  the JavaScript source function by function.

  Numbers. JavaScript numbers are IEEE doubles. The embedding computes with exact
  rationals: a finite number is \<open>Some q\<close>, and \<open>None\<close> stands for every value that is
  not a finite number (\<open>NaN\<close>, \<open>Infinity\<close>, \<open>-Infinity\<close>). Arithmetic with a value that
  is not finite and a finite one is again not finite, so one value for all three is
  enough for the additions and subtractions the source performs.

  Reading an array outside its bounds gives \<open>undefined\<close> in JavaScript; \<open>js_index\<close>
  returns \<open>None\<close> there.
\<close>

subsection \<open>Values\<close>

type_synonym jsnum = "rat option"

definition num_add :: "jsnum \<Rightarrow> jsnum \<Rightarrow> jsnum" where
  "num_add a b = (case a of None \<Rightarrow> None | Some p \<Rightarrow> (case b of None \<Rightarrow> None | Some q \<Rightarrow> Some (p + q)))"

definition num_sub :: "jsnum \<Rightarrow> jsnum \<Rightarrow> jsnum" where
  "num_sub a b = (case a of None \<Rightarrow> None | Some p \<Rightarrow> (case b of None \<Rightarrow> None | Some q \<Rightarrow> Some (p - q)))"

definition js_index :: "'a list \<Rightarrow> nat \<Rightarrow> 'a option" where
  "js_index xs k = (if k < length xs then Some (xs ! k) else None)"

text \<open>
  The failures the specification names, and JavaScript's own \<open>TypeError\<close> (reading an
  index of \<open>undefined\<close>). The source has no \<open>throw\<close> statement and no check of its
  arguments; the operations below return in \<open>error + 'a\<close> so that a claim about a
  failure can be stated of them.
\<close>

datatype error = DomainError | InvalidVectorLength | InvalidConfig | GridSizeMismatch | TypeError

subsection \<open>The linear scale\<close>

text \<open>
  Modelled from the spec: \<open>d3.scale.linear().domain([d0, d1]).range([r0, r1])\<close> is a
  call into the D3 library, which is not part of the repository's files. The
  specification (4.1) gives the mapping as
  \<open>range_min + (value - domain_min) * (range_max - range_min) / (domain_max - domain_min)\<close>
  and says of the reference that on \<open>domain_max = domain_min\<close> it divides by zero and
  silently produces \<open>NaN\<close> or \<open>Infinity\<close>: no finite number, \<open>None\<close> here. An
  \<open>undefined\<close> argument makes the subtraction \<open>NaN\<close>.
\<close>

definition interpolate :: "rat \<Rightarrow> rat \<Rightarrow> rat \<Rightarrow> rat \<Rightarrow> rat option \<Rightarrow> jsnum" where
  "interpolate d0 d1 r0 r1 v =
     (case v of
        None \<Rightarrow> None
      | Some a \<Rightarrow> if d1 = d0 then None else Some (r0 + (a - d0) * (r1 - r0) / (d1 - d0)))"

definition scale_linear :: "rat \<Rightarrow> rat \<Rightarrow> rat \<Rightarrow> rat \<Rightarrow> error + (rat option \<Rightarrow> jsnum)" where
  "scale_linear d0 d1 r0 r1 = Inr (interpolate d0 d1 r0 r1)"

subsection \<open>SVG elements\<close>

text \<open>
  An element carries the attributes and styles the source sets on it. Where the source
  sets no \<open>x\<close> attribute the SVG default 0 is recorded; a \<open>transform\<close> attribute
  \<open>translate(tx, 0)\<close> is recorded as \<open>Translate tx 0\<close>.
\<close>

datatype transform = NoTransform | Translate rat rat

record circle =
  circle_cx :: rat
  circle_cy :: rat
  circle_r :: rat
  circle_stroke :: string
  circle_stroke_width :: rat
  circle_fill :: string

record rect =
  rect_x :: jsnum
  rect_y :: jsnum
  rect_width :: jsnum
  rect_height :: jsnum
  rect_transform :: transform
  rect_fill :: string
  rect_stroke :: "string option"
  rect_stroke_width :: "rat option"
  rect_class :: "string option"

record text_label =
  text_x :: rat
  text_y :: rat
  text_fill :: string
  text_font_size :: string
  text_content :: int

datatype primitive = Circle circle | Rect rect | Text text_label

text \<open>
  \<open>selection.selectAll(sel).data(ds).enter().append(name)\<close> on a selection none of whose
  children matches \<open>sel\<close>: one new element per datum, in the order of the data, each
  attribute function called with the datum and its index.
\<close>

fun enter_from :: "nat \<Rightarrow> 'a list \<Rightarrow> ('a \<Rightarrow> nat \<Rightarrow> 'b) \<Rightarrow> 'b list" where
  "enter_from i [] mk = []"
| "enter_from i (d # ds) mk = mk d i # enter_from (Suc i) ds mk"

definition enter_append :: "'a list \<Rightarrow> ('a \<Rightarrow> nat \<Rightarrow> 'b) \<Rightarrow> 'b list" where
  "enter_append ds mk = enter_from 0 ds mk"

subsection \<open>radial\_bars\<close>

text \<open>
  \<open>radial_bars\<close> appends one \<open>svg\<close> element of width and height \<open>total_width\<close> to
  \<open>#chart\<close> and fills it; it returns nothing. The embedding returns the children of that
  \<open>svg\<close> in document order, which is the order in which they are painted. Each
  \<open>selectAll\<close> of the source names a class that no element of the fresh \<open>svg\<close> carries
  at that point, so every data join appends one element per datum; \<open>leftData\<close>,
  \<open>rightData\<close>, \<open>upData\<close> and \<open>downData\<close> have two entries each whatever \<open>data\<close> holds.
\<close>

definition missing_fill :: "rat option \<Rightarrow> string \<Rightarrow> string" where
  \<comment> \<open>\<open>if (leftData[i] == 0) { return empty_color; } else { return "transparent"; }\<close>\<close>
  "missing_fill d empty_color = (if d = Some 0 then empty_color else ''transparent'')"

definition radial_bars :: "rat list \<Rightarrow> rat \<Rightarrow> rat \<Rightarrow> int \<Rightarrow> rat \<Rightarrow> error + primitive list" where
  "radial_bars data number_of_bars max_number date shade =
    (let leftData = [js_index data 0, js_index data 1];
         rightData = [js_index data 2, js_index data 3];
         upData = [js_index data 4, js_index data 5];
         downData = [js_index data 6, js_index data 7];
         walk_pre_color = ''#20AED8'';
         walk_post_color = ''#2C1EA2'';
         stand_pre_color = ''#6E6E6E'';
         stand_post_color = ''#151515'';
         voice_pre_color = ''#EEBE32'';
         voice_post_color = ''#9F5B0D'';
         tap_pre_color = ''#F78181'';
         tap_post_color = ''#C02504'';
         colors = [walk_pre_color, walk_post_color, stand_pre_color, stand_post_color,
                   voice_pre_color, voice_post_color, tap_pre_color, tap_post_color];
         leftColors = [colors ! 0, colors ! 1];
         rightColors = [colors ! 2, colors ! 3];
         upColors = [colors ! 4, colors ! 5];
         downColors = [colors ! 6, colors ! 7];
         background_color = (if shade = 0 then ''#e2e2e2'' else ''#e2e2e2'');
         empty_color = (if shade = 0 then ''#ffffff'' else ''#ffffff'');
         bar_width = (15 :: rat);
         bar_length = (50 :: rat);
         left_origin = bar_length;
         barplot_width = number_of_bars * bar_width;
         total_width = barplot_width + 2 * bar_length;
         total_width_neg = bar_length - total_width;
         circle_penumbra = (20 :: rat)
     in
     case scale_linear 0 max_number 0 bar_length of
       Inl e \<Rightarrow> Inl e
     | Inr value2length \<Rightarrow>
    (case scale_linear 0 number_of_bars 0 barplot_width of
       Inl e \<Rightarrow> Inl e
     | Inr y \<Rightarrow>
     let translate_y = (\<lambda>d index.
           num_sub (num_add (Some (total_width / 2)) (y (Some (of_nat index)))) (Some bar_width));
         translate_x = (\<lambda>d i. Translate (left_origin + of_nat i * bar_width) 0)
     in Inr (
       \<comment> \<open>Enclosing circle\<close>
       enter_append leftData (\<lambda>d i. Circle
         \<lparr>circle_cx = total_width / 2, circle_cy = total_width / 2, circle_r = total_width / 2,
          circle_stroke = ''#ffffff'', circle_stroke_width = circle_penumbra,
          circle_fill = background_color\<rparr>)
       \<comment> \<open>LEFT missing data\<close>
     @ enter_append leftData (\<lambda>d i. Rect
         \<lparr>rect_x = Some 0, rect_y = translate_y d i,
          rect_width = Some bar_length, rect_height = Some bar_width,
          rect_transform = NoTransform, rect_fill = missing_fill (leftData ! i) empty_color,
          rect_stroke = None, rect_stroke_width = None, rect_class = Some ''gray''\<rparr>)
       \<comment> \<open>LEFT data\<close>
     @ enter_append leftData (\<lambda>d i. Rect
         \<lparr>rect_x = num_sub (Some left_origin) (value2length d), rect_y = translate_y d i,
          rect_width = value2length d, rect_height = Some (bar_width - 1),
          rect_transform = NoTransform, rect_fill = leftColors ! i,
          rect_stroke = None, rect_stroke_width = None, rect_class = Some ''left''\<rparr>)
       \<comment> \<open>RIGHT missing data\<close>
     @ enter_append rightData (\<lambda>d i. Rect
         \<lparr>rect_x = Some (left_origin + barplot_width), rect_y = translate_y d i,
          rect_width = Some bar_length, rect_height = Some bar_width,
          rect_transform = NoTransform, rect_fill = missing_fill (rightData ! i) empty_color,
          rect_stroke = None, rect_stroke_width = None, rect_class = Some ''gray''\<rparr>)
       \<comment> \<open>RIGHT data\<close>
     @ enter_append rightData (\<lambda>d i. Rect
         \<lparr>rect_x = Some (left_origin + barplot_width), rect_y = translate_y d i,
          rect_width = value2length d, rect_height = Some (bar_width - 1),
          rect_transform = NoTransform, rect_fill = rightColors ! i,
          rect_stroke = None, rect_stroke_width = None, rect_class = Some ''right''\<rparr>)
       \<comment> \<open>UP missing data\<close>
     @ enter_append upData (\<lambda>d i. Rect
         \<lparr>rect_x = Some 0, rect_y = Some 0,
          rect_width = Some bar_width, rect_height = Some bar_length,
          rect_transform = translate_x d i, rect_fill = missing_fill (upData ! i) empty_color,
          rect_stroke = None, rect_stroke_width = None, rect_class = Some ''gray''\<rparr>)
       \<comment> \<open>UP data\<close>
     @ enter_append upData (\<lambda>d i. Rect
         \<lparr>rect_x = Some 0,
          rect_y = num_sub (num_sub (Some (total_width / 2)) (value2length d)) (Some bar_width),
          rect_width = Some (bar_width - 1), rect_height = value2length d,
          rect_transform = translate_x d i, rect_fill = upColors ! i,
          rect_stroke = None, rect_stroke_width = None, rect_class = Some ''up''\<rparr>)
       \<comment> \<open>DOWN missing data\<close>
     @ enter_append downData (\<lambda>d i. Rect
         \<lparr>rect_x = Some 0, rect_y = Some (total_width / 2 + bar_width),
          rect_width = Some bar_width, rect_height = Some bar_length,
          rect_transform = translate_x d i, rect_fill = missing_fill (downData ! i) empty_color,
          rect_stroke = None, rect_stroke_width = None, rect_class = Some ''gray''\<rparr>)
       \<comment> \<open>DOWN data\<close>
     @ enter_append downData (\<lambda>d i. Rect
         \<lparr>rect_x = Some 0, rect_y = Some (total_width / 2 + bar_width),
          rect_width = Some (bar_width - 1), rect_height = value2length d,
          rect_transform = translate_x d i, rect_fill = downColors ! i,
          rect_stroke = None, rect_stroke_width = None, rect_class = Some ''down''\<rparr>)
       \<comment> \<open>Center square, enclosing square, date text\<close>
     @ [Rect
         \<lparr>rect_x = Some (total_width / 2 - bar_width), rect_y = Some (total_width / 2 - bar_width),
          rect_width = Some barplot_width, rect_height = Some barplot_width,
          rect_transform = NoTransform, rect_fill = background_color,
          rect_stroke = Some ''#aaaaaa'', rect_stroke_width = Some 1, rect_class = None\<rparr>,
        Rect
         \<lparr>rect_x = Some 0, rect_y = Some 0,
          rect_width = Some total_width, rect_height = Some total_width,
          rect_transform = NoTransform, rect_fill = ''transparent'',
          rect_stroke = Some ''#aaaaaa'', rect_stroke_width = Some 1, rect_class = None\<rparr>,
        Text
         \<lparr>text_x = 4, text_y = 16, text_fill = ''black'', text_font_size = ''9pt'',
          text_content = date\<rparr>])))"


subsection \<open>Random data\<close>

text \<open>
  \<open>parseInt(x)\<close> of a number \<open>x\<close> first converts \<open>x\<close> to a string and then reads the
  leading decimal digits of that string. \<open>Number::toString\<close> writes a number of magnitude
  from \<open>10^-6\<close> up to (not including) \<open>10^21\<close> in positional notation, so the digits
  before the point are its integer part; a smaller or larger magnitude is written in
  exponent notation, \<open>d.ddd...e-n\<close> or \<open>d.ddd...e+n\<close>, and \<open>parseInt\<close> reads only the
  leading digit \<open>d\<close>. The model takes the digits of the exact decimal expansion of the
  exact product; JavaScript rounds the product to a double first and prints the
  shortest digits that read back as that double, so the two can differ where this
  rounding changes a digit or crosses \<open>10^-6\<close>. They agree on a value that is a double
  with a short decimal expansion, such as \<open>2^-21\<close>.
\<close>

function leading_digit_small :: "rat \<Rightarrow> int" where
  "leading_digit_small a = (if 0 < a \<and> a < 1 then leading_digit_small (10 * a) else \<lfloor>a\<rfloor>)"
  by pat_completeness auto
termination
proof (relation "measure (\<lambda>a. nat \<lfloor>1 / a\<rfloor>)")
  show "wf (measure (\<lambda>a::rat. nat \<lfloor>1 / a\<rfloor>))" by simp
next
  fix a :: rat
  assume a: "0 < a \<and> a < 1"
  define y where "y = 1 / a"
  have y: "1 \<le> y" using a by (simp add: y_def)
  then have f1: "1 \<le> \<lfloor>y\<rfloor>" by simp
  have f2: "y - 1 < of_int \<lfloor>y\<rfloor>" by linarith
  have f3: "(1::rat) \<le> of_int \<lfloor>y\<rfloor>" using f1 by linarith
  have "y / 10 < of_int \<lfloor>y\<rfloor>" using f2 f3 by linarith
  then have "\<lfloor>y / 10\<rfloor> < \<lfloor>y\<rfloor>" by (simp add: floor_less_iff)
  moreover have "1 / (10 * a) = y / 10" by (simp add: y_def)
  ultimately have "\<lfloor>1 / (10 * a)\<rfloor> < \<lfloor>y\<rfloor>" by metis
  with f1 have "nat \<lfloor>1 / (10 * a)\<rfloor> < nat \<lfloor>y\<rfloor>" by linarith
  then show "(10 * a, a) \<in> measure (\<lambda>a. nat \<lfloor>1 / a\<rfloor>)" unfolding y_def by simp
qed

declare leading_digit_small.simps [simp del]

function leading_digit_large :: "rat \<Rightarrow> int" where
  "leading_digit_large a = (if 10 \<le> a then leading_digit_large (a / 10) else \<lfloor>a\<rfloor>)"
  by pat_completeness auto
termination
proof (relation "measure (\<lambda>a. nat \<lfloor>a\<rfloor>)")
  show "wf (measure (\<lambda>a::rat. nat \<lfloor>a\<rfloor>))" by simp
next
  fix a :: rat
  assume a: "10 \<le> a"
  then have f1: "10 \<le> \<lfloor>a\<rfloor>" by (simp add: le_floor_iff)
  have f2: "a - 1 < of_int \<lfloor>a\<rfloor>" by linarith
  have "a / 10 < of_int \<lfloor>a\<rfloor>" using a f2 by linarith
  then have "\<lfloor>a / 10\<rfloor> < \<lfloor>a\<rfloor>" by (simp add: floor_less_iff)
  with f1 show "(a / 10, a) \<in> measure (\<lambda>a. nat \<lfloor>a\<rfloor>)" by simp
qed

declare leading_digit_large.simps [simp del]

definition parseInt :: "rat \<Rightarrow> int" where
  "parseInt x =
     (let a = \<bar>x\<bar>;
          digits = (if a = 0 then 0
                    else if a < 1 / 10 ^ 6 then leading_digit_small a
                    else if a < 10 ^ 21 then \<lfloor>a\<rfloor>
                    else leading_digit_large a)
      in if x < 0 then - digits else digits)"

text \<open>
  \<open>Math.random()\<close> is the only source of nondeterminism. The sequence of its results is
  a parameter \<open>rnd\<close>, and the number of draws made so far is threaded through the calls.
\<close>

function randomNumbers_loop ::
  "nat \<Rightarrow> nat \<Rightarrow> rat \<Rightarrow> (nat \<Rightarrow> rat) \<Rightarrow> nat \<Rightarrow> rat list \<Rightarrow> rat list \<times> nat" where
  "randomNumbers_loop i number_of_values max_number rnd k numbers =
     (if i < number_of_values
      then randomNumbers_loop (Suc i) number_of_values max_number rnd (Suc k)
             (numbers @ [of_int (parseInt (rnd k * max_number))])
      else (numbers, k))"
  by pat_completeness auto
termination
  by (relation "measure (\<lambda>(i, n, m, r, k, ns). n - i)") auto

declare randomNumbers_loop.simps [simp del]

definition randomNumbers :: "nat \<Rightarrow> rat \<Rightarrow> (nat \<Rightarrow> rat) \<Rightarrow> nat \<Rightarrow> rat list \<times> nat" where
  "randomNumbers number_of_values max_number rnd k =
     randomNumbers_loop 0 number_of_values max_number rnd k []"

function getDataForMonth_loop ::
  "nat \<Rightarrow> nat \<Rightarrow> rat \<Rightarrow> (nat \<Rightarrow> rat) \<Rightarrow> nat \<Rightarrow> rat list list \<Rightarrow> rat list list \<times> nat" where
  "getDataForMonth_loop i number_of_values max_number rnd k randomData =
     (if i < 35
      then (case randomNumbers number_of_values max_number rnd k of
              (numbers, k') \<Rightarrow>
                getDataForMonth_loop (Suc i) number_of_values max_number rnd k'
                  (randomData @ [numbers]))
      else (randomData, k))"
  by pat_completeness auto
termination
  by (relation "measure (\<lambda>(i, n, m, r, k, ds). 35 - i)") auto

declare getDataForMonth_loop.simps [simp del]

definition getDataForMonth :: "nat \<Rightarrow> rat \<Rightarrow> (nat \<Rightarrow> rat) \<Rightarrow> nat \<Rightarrow> rat list list \<times> nat" where
  "getDataForMonth number_of_values max_number rnd k =
     getDataForMonth_loop 0 number_of_values max_number rnd k []"

subsection \<open>drawGraphsForMonthlyData\<close>

definition dates :: "int list" where
  "dates = [27,3,10,17,24,28,4,11,18,25,29,5,12,19,26,30,6,13,20,27,31,7,14,21,28,
            1,8,15,22,29,2,9,16,23,30]"

text \<open>
  The chart is the list of glyphs appended to \<open>#chart\<close> so far: every call of
  \<open>radial_bars\<close> appends one \<open>svg\<close> element, whose children are the primitives the call
  returns here. \<open>data[i*7 + j]\<close> outside the array would be \<open>undefined\<close>, and
  \<open>radial_bars\<close> would then throw at \<open>data[0]\<close>. The index \<open>j*5 + i\<close> into \<open>dates\<close> is at
  most 34 inside the two loops.
\<close>

function for_j ::
  "nat \<Rightarrow> rat \<Rightarrow> rat \<Rightarrow> rat list list \<Rightarrow> nat \<Rightarrow> nat \<Rightarrow> primitive list list
     \<Rightarrow> error + primitive list list" where
  "for_j number_of_bars max_number shade data i j chart =
     (if j < 7
      then (case js_index data (i * 7 + j) of
              None \<Rightarrow> Inl TypeError
            | Some cell \<Rightarrow>
                (case radial_bars cell (of_nat number_of_bars) max_number
                        (dates ! (j * 5 + i)) shade of
                   Inl e \<Rightarrow> Inl e
                 | Inr glyph \<Rightarrow> for_j number_of_bars max_number shade data i (Suc j)
                                  (chart @ [glyph])))
      else Inr chart)"
  by pat_completeness auto
termination
  by (relation "measure (\<lambda>(n, m, s, d, i, j, c). 7 - j)") auto

declare for_j.simps [simp del]

function for_i ::
  "nat \<Rightarrow> rat \<Rightarrow> rat \<Rightarrow> rat list list \<Rightarrow> nat \<Rightarrow> primitive list list
     \<Rightarrow> error + primitive list list" where
  "for_i number_of_bars max_number shade data i chart =
     (if i < 5
      then (case for_j number_of_bars max_number shade data i 0 chart of
              Inl e \<Rightarrow> Inl e
            | Inr chart' \<Rightarrow> for_i number_of_bars max_number shade data (Suc i) chart')
      else Inr chart)"
  by pat_completeness auto
termination
  by (relation "measure (\<lambda>(n, m, s, d, i, c). 5 - i)") auto

declare for_i.simps [simp del]

definition drawGraphsForMonthlyData :: "(nat \<Rightarrow> rat) \<Rightarrow> error + primitive list list" where
  "drawGraphsForMonthlyData rnd =
     (let number_of_sides = 4;
          number_of_bars = 2;
          max_number = 20;
          data = fst (getDataForMonth (number_of_sides * number_of_bars) max_number rnd 0);
          shade = 0
      in for_i number_of_bars max_number shade data 0 [])"

subsection \<open>Reading a glyph\<close>

text \<open>
  The statements below address the primitives of a glyph by direction and phase. The
  vector entry of direction number \<open>s\<close> and phase number \<open>b\<close> is \<open>data[2*s + b]\<close>; in the
  output the two circles come first, then for each direction two placeholders and two
  data bars.
\<close>

datatype direction = DirLeft | DirRight | DirUp | DirDown

datatype phase = Pre | Post

primrec dir_index :: "direction \<Rightarrow> nat" where
  "dir_index DirLeft = 0"
| "dir_index DirRight = 1"
| "dir_index DirUp = 2"
| "dir_index DirDown = 3"

primrec phase_index :: "phase \<Rightarrow> nat" where
  "phase_index Pre = 0"
| "phase_index Post = 1"

definition value_index :: "direction \<Rightarrow> phase \<Rightarrow> nat" where
  "value_index d p = 2 * dir_index d + phase_index p"

definition placeholder_at :: "primitive list \<Rightarrow> direction \<Rightarrow> phase \<Rightarrow> primitive" where
  "placeholder_at ps d p = ps ! (2 + 4 * dir_index d + phase_index p)"

definition data_bar_at :: "primitive list \<Rightarrow> direction \<Rightarrow> phase \<Rightarrow> primitive" where
  "data_bar_at ps d p = ps ! (4 + 4 * dir_index d + phase_index p)"

primrec horizontal :: "direction \<Rightarrow> bool" where
  "horizontal DirLeft = True"
| "horizontal DirRight = True"
| "horizontal DirUp = False"
| "horizontal DirDown = False"

primrec bar_extent :: "direction \<Rightarrow> primitive \<Rightarrow> jsnum" where
  "bar_extent d (Rect r) = (if horizontal d then rect_width r else rect_height r)"
| "bar_extent d (Circle c) = None"
| "bar_extent d (Text t) = None"

primrec bar_thickness :: "direction \<Rightarrow> primitive \<Rightarrow> jsnum" where
  "bar_thickness d (Rect r) = (if horizontal d then rect_height r else rect_width r)"
| "bar_thickness d (Circle c) = None"
| "bar_thickness d (Text t) = None"

primrec fill_of :: "primitive \<Rightarrow> string" where
  "fill_of (Circle c) = circle_fill c"
| "fill_of (Rect r) = rect_fill r"
| "fill_of (Text t) = text_fill t"

primrec class_of :: "primitive \<Rightarrow> string option" where
  "class_of (Rect r) = rect_class r"
| "class_of (Circle c) = None"
| "class_of (Text t) = None"

primrec tag :: "primitive \<Rightarrow> string" where
  "tag (Circle c) = ''circle''"
| "tag (Rect r) = (case rect_class r of None \<Rightarrow> ''rect'' | Some c \<Rightarrow> ''rect.'' @ c)"
| "tag (Text t) = ''text''"

text \<open>
  The area a rectangle covers, after its translation, lies in the square from 0 to \<open>w\<close>
  in both coordinates. A rectangle with an attribute that is not a finite number does
  not.
\<close>

primrec translation :: "transform \<Rightarrow> rat \<times> rat" where
  "translation NoTransform = (0, 0)"
| "translation (Translate tx ty) = (tx, ty)"

definition rect_inside :: "rat \<Rightarrow> rect \<Rightarrow> bool" where
  "rect_inside w r =
     (case (rect_x r, rect_y r, rect_width r, rect_height r) of
        (Some x, Some y, Some rw, Some rh) \<Rightarrow>
          (case translation (rect_transform r) of
             (tx, ty) \<Rightarrow> 0 \<le> rw \<and> 0 \<le> rh \<and> 0 \<le> tx + x \<and> tx + x + rw \<le> w
                         \<and> 0 \<le> ty + y \<and> ty + y + rh \<le> w)
      | _ \<Rightarrow> False)"

primrec inside :: "rat \<Rightarrow> primitive \<Rightarrow> bool" where
  "inside w (Rect r) = rect_inside w r"
| "inside w (Circle c) = True"
| "inside w (Text t) = True"

text \<open>
  Where a rectangle lies along and across a direction, after its translation. The near
  edge of a bar is the one that faces the center of the glyph (the right edge of a bar
  of the left side, the left edge of one of the right side, the bottom edge of one of
  the upper side, the top edge of one of the lower side); \<open>square_side\<close> is the side
  of the center square that faces the direction. \<open>cross_start\<close> and \<open>cross_end\<close> bound
  the rectangle across the direction. The center square is the element after the data
  bars of the lower side.
\<close>

definition left_edge :: "rect \<Rightarrow> jsnum" where
  "left_edge r = num_add (Some (fst (translation (rect_transform r)))) (rect_x r)"

definition right_edge :: "rect \<Rightarrow> jsnum" where
  "right_edge r = num_add (left_edge r) (rect_width r)"

definition top_edge :: "rect \<Rightarrow> jsnum" where
  "top_edge r = num_add (Some (snd (translation (rect_transform r)))) (rect_y r)"

definition bottom_edge :: "rect \<Rightarrow> jsnum" where
  "bottom_edge r = num_add (top_edge r) (rect_height r)"

primrec near_edge :: "direction \<Rightarrow> rect \<Rightarrow> jsnum" where
  "near_edge DirLeft r = right_edge r"
| "near_edge DirRight r = left_edge r"
| "near_edge DirUp r = bottom_edge r"
| "near_edge DirDown r = top_edge r"

primrec square_side :: "direction \<Rightarrow> rect \<Rightarrow> jsnum" where
  "square_side DirLeft r = left_edge r"
| "square_side DirRight r = right_edge r"
| "square_side DirUp r = top_edge r"
| "square_side DirDown r = bottom_edge r"

primrec cross_start :: "direction \<Rightarrow> rect \<Rightarrow> jsnum" where
  "cross_start DirLeft r = top_edge r"
| "cross_start DirRight r = top_edge r"
| "cross_start DirUp r = left_edge r"
| "cross_start DirDown r = left_edge r"

primrec cross_end :: "direction \<Rightarrow> rect \<Rightarrow> jsnum" where
  "cross_end DirLeft r = bottom_edge r"
| "cross_end DirRight r = bottom_edge r"
| "cross_end DirUp r = right_edge r"
| "cross_end DirDown r = right_edge r"

definition center_square_at :: "primitive list \<Rightarrow> primitive" where
  "center_square_at ps = ps ! 18"


section \<open>Properties\<close>

subsection \<open>Auxiliary facts\<close>

lemmas radial_bars_unfold =
  radial_bars_def Let_def scale_linear_def enter_append_def num_add_def num_sub_def

lemma radial_bars_returns:
  "\<exists>ps. radial_bars data number_of_bars max_number date shade = Inr ps \<and> length ps = 21"
  by (simp add: radial_bars_unfold)

lemma value2length_bounds:
  assumes "0 < mx" "0 \<le> v" "v \<le> mx"
  shows "\<exists>l. interpolate 0 mx 0 50 (Some v) = Some l \<and> 0 \<le> l \<and> l \<le> 50"
proof -
  have "v * 50 / mx \<le> mx * 50 / mx"
    using assms by (intro divide_right_mono mult_right_mono) simp_all
  moreover have "0 \<le> v * 50 / mx" using assms by simp
  ultimately show ?thesis using assms by (simp add: interpolate_def)
qed

lemma y_scale_two_bars: "interpolate 0 2 0 30 (Some x) = Some (15 * x)"
  by (simp add: interpolate_def)

lemma list_of_length_8:
  assumes "length (xs :: 'a list) = 8"
  shows "\<exists>a b c d e f g h. xs = [a, b, c, d, e, f, g, h]"
  using assms by (auto simp add: length_Suc_conv eval_nat_numeral)

lemma randomNumbers_loop_length:
  "i \<le> n \<Longrightarrow> length (fst (randomNumbers_loop i n mx rnd k numbers)) = length numbers + (n - i)"
proof (induction i n mx rnd k numbers rule: randomNumbers_loop.induct)
  case (1 i n mx rnd k numbers)
  show ?case
  proof (cases "i < n")
    case True
    then show ?thesis using "1.IH" by (subst randomNumbers_loop.simps) simp
  next
    case False
    then show ?thesis using "1.prems" by (subst randomNumbers_loop.simps) simp
  qed
qed

lemma randomNumbers_length: "length (fst (randomNumbers n mx rnd k)) = n"
  by (simp add: randomNumbers_def randomNumbers_loop_length)

lemma getDataForMonth_loop_length:
  "i \<le> 35 \<Longrightarrow>
   length (fst (getDataForMonth_loop i n mx rnd k randomData)) = length randomData + (35 - i)"
proof (induction i n mx rnd k randomData rule: getDataForMonth_loop.induct)
  case (1 i n mx rnd k randomData)
  show ?case
  proof (cases "i < 35")
    case True
    obtain numbers k' where r: "randomNumbers n mx rnd k = (numbers, k')"
      by (cases "randomNumbers n mx rnd k")
    have "length (fst (getDataForMonth_loop (Suc i) n mx rnd k' (randomData @ [numbers])))
            = length (randomData @ [numbers]) + (35 - Suc i)"
      using "1.IH" [OF True r [symmetric]] True by simp
    then show ?thesis using True r by (subst getDataForMonth_loop.simps) simp
  next
    case False
    then show ?thesis using "1.prems" by (subst getDataForMonth_loop.simps) simp
  qed
qed

lemma getDataForMonth_length: "length (fst (getDataForMonth n mx rnd k)) = 35"
  by (simp add: getDataForMonth_def getDataForMonth_loop_length)

text \<open>The inner loop appends the glyphs of the remaining columns of row \<open>i\<close>.\<close>

lemma for_j_eq:
  "j \<le> 7 \<Longrightarrow> i * 7 + 7 \<le> length data \<Longrightarrow>
   for_j nb mx sh data i j chart =
     Inr (chart @ map (\<lambda>j'. projr (radial_bars (data ! (i * 7 + j')) (of_nat nb) mx
                                     (dates ! (j' * 5 + i)) sh)) [j..<7])"
proof (induction nb mx sh data i j chart rule: for_j.induct)
  case (1 nb mx sh data i j chart)
  show ?case
  proof (cases "j < 7")
    case True
    have idx: "js_index data (i * 7 + j) = Some (data ! (i * 7 + j))"
      using True "1.prems" by (simp add: js_index_def)
    obtain g where rb:
      "radial_bars (data ! (i * 7 + j)) (of_nat nb) mx (dates ! (j * 5 + i)) sh = Inr g"
      using radial_bars_returns by blast
    have ih: "for_j nb mx sh data i (Suc j) (chart @ [g]) =
        Inr ((chart @ [g]) @ map (\<lambda>j'. projr (radial_bars (data ! (i * 7 + j')) (of_nat nb) mx
                                     (dates ! (j' * 5 + i)) sh)) [Suc j..<7])"
      using "1.IH" [OF True idx rb] True "1.prems" by simp
    have "for_j nb mx sh data i j chart = for_j nb mx sh data i (Suc j) (chart @ [g])"
      using True idx rb by (subst for_j.simps) simp
    then show ?thesis using ih True rb by (simp add: upt_conv_Cons)
  next
    case False
    then have "j = 7" using "1.prems" by simp
    then show ?thesis by (subst for_j.simps) simp
  qed
qed

text \<open>The outer loop appends the remaining rows, one after the other.\<close>

lemma for_i_eq:
  "i \<le> 5 \<Longrightarrow> 35 \<le> length data \<Longrightarrow>
   for_i nb mx sh data i chart =
     Inr (chart @ concat (map (\<lambda>i'. map (\<lambda>j'. projr (radial_bars (data ! (i' * 7 + j'))
                                     (of_nat nb) mx (dates ! (j' * 5 + i')) sh)) [0..<7]) [i..<5]))"
proof (induction nb mx sh data i chart rule: for_i.induct)
  case (1 nb mx sh data i chart)
  show ?case
  proof (cases "i < 5")
    case True
    let ?row = "map (\<lambda>j'. projr (radial_bars (data ! (i * 7 + j')) (of_nat nb) mx
                                     (dates ! (j' * 5 + i)) sh)) [0..<7]"
    have fj: "for_j nb mx sh data i 0 chart = Inr (chart @ ?row)"
      using True "1.prems" by (intro for_j_eq) simp_all
    have ih: "for_i nb mx sh data (Suc i) (chart @ ?row) =
       Inr ((chart @ ?row) @ concat (map (\<lambda>i'. map (\<lambda>j'. projr (radial_bars
              (data ! (i' * 7 + j')) (of_nat nb) mx (dates ! (j' * 5 + i')) sh)) [0..<7])
              [Suc i..<5]))"
      using "1.IH" [OF True fj] True "1.prems" by simp
    have "for_i nb mx sh data i chart = for_i nb mx sh data (Suc i) (chart @ ?row)"
      using True fj by (subst for_i.simps) simp
    then show ?thesis using ih True by (simp add: upt_conv_Cons)
  next
    case False
    then have "i = 5" using "1.prems" by simp
    then show ?thesis by (subst for_i.simps) simp
  qed
qed

lemma nth_concat_rows:
  "list_all (\<lambda>r. length r = n) rows \<Longrightarrow> i < length rows \<Longrightarrow> j < n \<Longrightarrow>
   concat rows ! (i * n + j) = rows ! i ! j"
proof (induction rows arbitrary: i)
  case Nil
  then show ?case by simp
next
  case (Cons r rows)
  show ?case
  proof (cases i)
    case 0
    then show ?thesis using Cons.prems by (simp add: nth_append)
  next
    case (Suc i')
    then have "concat rows ! (i' * n + j) = rows ! i' ! j"
      using Cons.IH [of i'] Cons.prems by simp
    moreover have "(r # rows) ! i = rows ! i'" using Suc by simp
    moreover have "concat (r # rows) ! (i * n + j) = concat rows ! (i' * n + j)"
      using Suc Cons.prems by (simp add: nth_append)
    ultimately show ?thesis by simp
  qed
qed

lemma length_concat_rows:
  "list_all (\<lambda>r. length r = n) rows \<Longrightarrow> length (concat rows) = length rows * n"
  by (induction rows) simp_all


text \<open>
  In exponent notation \<open>parseInt\<close> reads a digit from 1 to 9. So, in this model on
  exact rationals, the numbers of \<open>randomNumbers\<close> stay below \<open>max_number\<close> when
  \<open>max_number\<close> is more than 9 (and at most \<open>10^21\<close>); the program itself calls it
  with 20.
\<close>

lemma leading_digit_small_range:
  "0 < a \<Longrightarrow> a < 1 \<Longrightarrow> 1 \<le> leading_digit_small a \<and> leading_digit_small a \<le> 9"
proof (induction a rule: leading_digit_small.induct)
  case (1 a)
  have step: "leading_digit_small a = leading_digit_small (10 * a)"
    using "1.prems" by (subst leading_digit_small.simps) simp
  show ?case
  proof (cases "10 * a < 1")
    case True
    then show ?thesis using "1.IH" "1.prems" step by simp
  next
    case False
    then have "leading_digit_small (10 * a) = \<lfloor>10 * a\<rfloor>"
      by (subst leading_digit_small.simps) simp
    moreover have "1 \<le> \<lfloor>10 * a\<rfloor>" using False by (simp add: le_floor_iff)
    moreover have "\<lfloor>10 * a\<rfloor> < 10" using "1.prems" by (simp add: floor_less_iff)
    ultimately show ?thesis using step by simp
  qed
qed

lemma parseInt_range:
  assumes "0 \<le> x" "x < mx" "9 < mx" "mx \<le> 10 ^ 21"
  shows "0 \<le> parseInt x \<and> of_int (parseInt x) < mx"
proof (cases "x = 0")
  case True
  then show ?thesis using assms by (simp add: parseInt_def)
next
  case False
  then have pos: "0 < x" using assms by simp
  show ?thesis
  proof (cases "x < 1 / 10 ^ 6")
    case True
    then have "x < 1" by simp
    then have "1 \<le> leading_digit_small x \<and> leading_digit_small x \<le> 9"
      using pos leading_digit_small_range by blast
    moreover have "parseInt x = leading_digit_small x"
      using pos True by (simp add: parseInt_def)
    moreover have "(of_int (leading_digit_small x) :: rat) \<le> 9"
      using calculation by (metis of_int_le_iff of_int_numeral)
    ultimately show ?thesis using assms by simp
  next
    case False
    then have p: "parseInt x = \<lfloor>x\<rfloor>"
      using pos assms by (simp add: parseInt_def Let_def)
    have "of_int \<lfloor>x\<rfloor> \<le> x" by (rule of_int_floor_le)
    then have "of_int \<lfloor>x\<rfloor> < mx" using assms by linarith
    moreover have "0 \<le> \<lfloor>x\<rfloor>" using pos by simp
    ultimately show ?thesis using p by simp
  qed
qed

lemma randomNumbers_loop_range:
  assumes rnd: "\<And>k. 0 \<le> rnd k \<and> rnd k < 1" and mx: "9 < mx" "mx \<le> 10 ^ 21"
  shows "list_all (\<lambda>v. v \<in> \<int> \<and> 0 \<le> v \<and> v < mx) numbers \<Longrightarrow>
    list_all (\<lambda>v. v \<in> \<int> \<and> 0 \<le> v \<and> v < mx) (fst (randomNumbers_loop i n mx rnd k numbers))"
proof (induction "n - i" arbitrary: i k numbers)
  case 0
  then show ?case by (subst randomNumbers_loop.simps) simp
next
  case (Suc m)
  then have lt: "i < n" by simp
  let ?v = "of_int (parseInt (rnd k * mx)) :: rat"
  have "0 \<le> rnd k * mx" using rnd [of k] mx by simp
  moreover have "rnd k * mx < mx" using rnd [of k] mx by simp
  ultimately have "0 \<le> parseInt (rnd k * mx) \<and> ?v < mx"
    using parseInt_range mx by blast
  then have "list_all (\<lambda>v. v \<in> \<int> \<and> 0 \<le> v \<and> v < mx) (numbers @ [?v])"
    using Suc.prems by simp
  moreover have "m = n - Suc i" using Suc.hyps(2) by simp
  ultimately have "list_all (\<lambda>v. v \<in> \<int> \<and> 0 \<le> v \<and> v < mx)
      (fst (randomNumbers_loop (Suc i) n mx rnd (Suc k) (numbers @ [?v])))"
    using Suc.hyps(1) by blast
  then show ?case using lt by (subst randomNumbers_loop.simps) simp
qed

lemma randomNumbers_range:
  assumes "\<And>k. 0 \<le> rnd k \<and> rnd k < 1" and "9 < mx" "mx \<le> 10 ^ 21"
  shows "list_all (\<lambda>v. v \<in> \<int> \<and> 0 \<le> v \<and> v < mx) (fst (randomNumbers n mx rnd k))"
  using randomNumbers_loop_range [OF assms, where numbers = "[]"] by (simp add: randomNumbers_def)

text \<open>The order of the elements of a glyph does not depend on the input.\<close>

lemma glyph_element_order:
  "\<exists>ps. radial_bars data number_of_bars max_number date shade = Inr ps
    \<and> map tag ps =
       [''circle'', ''circle'',
        ''rect.gray'', ''rect.gray'', ''rect.left'', ''rect.left'',
        ''rect.gray'', ''rect.gray'', ''rect.right'', ''rect.right'',
        ''rect.gray'', ''rect.gray'', ''rect.up'', ''rect.up'',
        ''rect.gray'', ''rect.gray'', ''rect.down'', ''rect.down'',
        ''rect'', ''rect'', ''text'']"
  by (simp add: radial_bars_unfold)

subsection \<open>The glyph of one cell\<close>

text \<open>
  Claim C1. For the vector \<open>[0,5,10,20,0,0,15,3]\<close> with \<open>max_number = 20\<close> (the bar length
  is the source's 50) the data bars are scaled linearly: the Left-pre bar has length 0
  and its placeholder is visible (filled with the empty colour), the Left-post bar has
  length 12.5, the Up-pre and Up-post bars have length 0 with visible placeholders, the
  Down-pre bar has length 37.5 and the Down-post bar 7.5.
\<close>

theorem scenario_bar_lengths:
  "\<exists>ps. radial_bars [0, 5, 10, 20, 0, 0, 15, 3] 2 20 date shade = Inr ps
    \<and> bar_extent DirLeft (data_bar_at ps DirLeft Pre) = Some 0
    \<and> fill_of (placeholder_at ps DirLeft Pre) = ''#ffffff''
    \<and> bar_extent DirLeft (data_bar_at ps DirLeft Post) = Some (25 / 2)
    \<and> bar_extent DirUp (data_bar_at ps DirUp Pre) = Some 0
    \<and> fill_of (placeholder_at ps DirUp Pre) = ''#ffffff''
    \<and> bar_extent DirUp (data_bar_at ps DirUp Post) = Some 0
    \<and> fill_of (placeholder_at ps DirUp Post) = ''#ffffff''
    \<and> bar_extent DirDown (data_bar_at ps DirDown Pre) = Some (75 / 2)
    \<and> bar_extent DirDown (data_bar_at ps DirDown Post) = Some (15 / 2)"
  by (simp add: radial_bars_unfold placeholder_at_def data_bar_at_def js_index_def
      interpolate_def missing_fill_def)

text \<open>
  Claim C2 says that a glyph starts with exactly one background circle, followed by the
  placeholder and data-bar groups of the four directions, the center square, the
  enclosing square and the text. The source binds the circle to the two entries of
  \<open>leftData\<close> (\<open>selectAll("rect.circle").data(leftData).enter().append("circle")\<close>), so
  two circles are appended; the rest of the order is as claimed. The elements of the
  glyph for the vector \<open>[0,5,10,20,0,0,15,3]\<close>, by element name and class:
\<close>

theorem two_circles_appended:
  "\<exists>ps. radial_bars [0, 5, 10, 20, 0, 0, 15, 3] 2 20 27 0 = Inr ps
    \<and> map tag ps =
       [''circle'', ''circle'',
        ''rect.gray'', ''rect.gray'', ''rect.left'', ''rect.left'',
        ''rect.gray'', ''rect.gray'', ''rect.right'', ''rect.right'',
        ''rect.gray'', ''rect.gray'', ''rect.up'', ''rect.up'',
        ''rect.gray'', ''rect.gray'', ''rect.down'', ''rect.down'',
        ''rect'', ''rect'', ''text'']"
  by (simp add: radial_bars_unfold)

text \<open>
  Claim C3. For every direction and phase the placeholder is a rectangle of class
  \<open>gray\<close> whose extent along the direction is the full bar length 50; it is filled with
  the empty colour \<open>#ffffff\<close> when the value of that direction and phase is exactly 0,
  and with \<open>transparent\<close> for any other value.
\<close>

theorem zero_value_placeholder:
  "\<exists>ps. radial_bars data number_of_bars max_number date shade = Inr ps
    \<and> class_of (placeholder_at ps d p) = Some ''gray''
    \<and> bar_extent d (placeholder_at ps d p) = Some 50
    \<and> fill_of (placeholder_at ps d p) =
         (if js_index data (value_index d p) = Some 0 then ''#ffffff'' else ''transparent'')"
  by (cases d; cases p;
      simp add: radial_bars_unfold placeholder_at_def value_index_def missing_fill_def)

text \<open>
  Claim C4, as amended. The claim says that the scale constructor fails with
  \<open>DomainError\<close> when the two ends of the domain are equal. The source builds the scale
  without any check: the constructor returns a scale for every domain, a domain with
  equal ends included, and with \<open>max_number = 0\<close> the glyph is still returned with all
  its elements.
\<close>

theorem degenerate_scale_returns:
  "\<exists>f. scale_linear d0 d0 r0 r1 = Inr f
   \<and> (\<exists>ps. radial_bars data number_of_bars 0 date shade = Inr ps \<and> length ps = 21)"
  by (simp add: radial_bars_unfold)

text \<open>
  The claim as stated fails for the domain \<open>[0, 0]\<close> with the range \<open>[0, 50]\<close>, and for
  the glyph drawn with \<open>max_number = 0\<close>.
\<close>

theorem degenerate_scale_counterexample:
  "scale_linear 0 0 0 50 \<noteq> Inl DomainError
   \<and> radial_bars [0, 5, 10, 20, 0, 0, 15, 3] 2 0 27 0 \<noteq> Inl DomainError"
  by (simp add: radial_bars_unfold)

text \<open>
  Claim C6, as amended. The claim says that a vector which does not have exactly 8
  entries makes the layout fail with \<open>InvalidVectorLength\<close> and produce nothing. The
  source does not look at the length: for every vector it returns the 21 elements, and
  an entry the vector does not have is read as \<open>undefined\<close>, which gives a transparent
  placeholder and a data bar whose length is not a number.
\<close>

theorem short_vector_returns:
  "\<exists>ps. radial_bars data number_of_bars max_number date shade = Inr ps \<and> length ps = 21
   \<and> (length data \<le> value_index d p \<longrightarrow>
        fill_of (placeholder_at ps d p) = ''transparent''
        \<and> bar_extent d (data_bar_at ps d p) = None)"
  by (cases d; cases p;
      simp add: radial_bars_unfold placeholder_at_def data_bar_at_def value_index_def
        js_index_def interpolate_def missing_fill_def)

text \<open>The vector \<open>[1,2,3]\<close> has no Down-post entry (index 7).\<close>

theorem short_vector_returns_witness:
  "\<exists>ps. radial_bars [1, 2, 3] 2 20 27 0 = Inr ps \<and> length ps = 21
   \<and> length [1, 2, 3 :: rat] \<le> value_index DirDown Post
   \<and> fill_of (placeholder_at ps DirDown Post) = ''transparent''
   \<and> bar_extent DirDown (data_bar_at ps DirDown Post) = None"
  using short_vector_returns [of "[1, 2, 3]" 2 20 27 0 DirDown Post]
  by (auto simp add: value_index_def)

text \<open>The claim as stated fails for the three-entry vector \<open>[1,2,3]\<close>.\<close>

theorem short_vector_counterexample:
  "radial_bars [1, 2, 3] 2 20 27 0 \<noteq> Inl InvalidVectorLength
   \<and> (\<exists>ps. radial_bars [1, 2, 3] 2 20 27 0 = Inr ps \<and> length ps = 21)"
  by (simp add: radial_bars_unfold)

text \<open>All rectangles of a glyph with two bars per side lie inside its square.\<close>

lemma rectangles_all_inside:
  assumes len: "length data = 8" and mx: "0 < max_number"
    and rng: "\<forall>v \<in> set data. 0 \<le> v \<and> v \<le> max_number"
  shows "\<exists>ps. radial_bars data 2 max_number date shade = Inr ps
           \<and> list_all (inside (2 * 15 + 2 * 50)) ps"
proof -
  from len obtain a b c d e f g h where data: "data = [a, b, c, d, e, f, g, h]"
    using list_of_length_8 by blast
  have bnd: "\<And>v. v \<in> set data \<Longrightarrow>
      \<exists>l. interpolate 0 max_number 0 50 (Some v) = Some l \<and> 0 \<le> l \<and> l \<le> 50"
    using rng mx value2length_bounds by blast
  obtain la where la: "interpolate 0 max_number 0 50 (Some a) = Some la" "0 \<le> la" "la \<le> 50"
    using bnd [of a] data by auto
  obtain lb where lb: "interpolate 0 max_number 0 50 (Some b) = Some lb" "0 \<le> lb" "lb \<le> 50"
    using bnd [of b] data by auto
  obtain lc where lc: "interpolate 0 max_number 0 50 (Some c) = Some lc" "0 \<le> lc" "lc \<le> 50"
    using bnd [of c] data by auto
  obtain ld where ld: "interpolate 0 max_number 0 50 (Some d) = Some ld" "0 \<le> ld" "ld \<le> 50"
    using bnd [of d] data by auto
  obtain le where le: "interpolate 0 max_number 0 50 (Some e) = Some le" "0 \<le> le" "le \<le> 50"
    using bnd [of e] data by auto
  obtain lf where lf: "interpolate 0 max_number 0 50 (Some f) = Some lf" "0 \<le> lf" "lf \<le> 50"
    using bnd [of f] data by auto
  obtain lg where lg: "interpolate 0 max_number 0 50 (Some g) = Some lg" "0 \<le> lg" "lg \<le> 50"
    using bnd [of g] data by auto
  obtain lh where lh: "interpolate 0 max_number 0 50 (Some h) = Some lh" "0 \<le> lh" "lh \<le> 50"
    using bnd [of h] data by auto
  show ?thesis
    using la lb lc ld le lf lg lh
    by (simp add: data radial_bars_unfold js_index_def y_scale_two_bars rect_inside_def)
qed

text \<open>
  Every data bar starts at the side of the center square that faces its direction, has
  the scaled value as its length, and lies across its direction within the span of the
  center square.
\<close>

lemmas edge_defs = left_edge_def right_edge_def top_edge_def bottom_edge_def

lemma data_bars_anchored:
  assumes len: "length data = 8" and mx: "0 < max_number"
  shows "\<exists>ps bar sq. radial_bars data 2 max_number date shade = Inr ps
     \<and> data_bar_at ps d p = Rect bar \<and> center_square_at ps = Rect sq
     \<and> near_edge d bar = square_side d sq
     \<and> bar_extent d (Rect bar) = Some (data ! value_index d p * 50 / max_number)
     \<and> (\<exists>cs ce s0 s1. cross_start d bar = Some cs \<and> cross_end d bar = Some ce
          \<and> cross_start d sq = Some s0 \<and> cross_end d sq = Some s1 \<and> s0 \<le> cs \<and> ce \<le> s1)"
proof -
  from len obtain a b c d' e f g h where data: "data = [a, b, c, d', e, f, g, h]"
    using list_of_length_8 by blast
  show ?thesis using mx
    by (cases d; cases p;
        simp add: data radial_bars_unfold js_index_def interpolate_def data_bar_at_def
          center_square_at_def value_index_def edge_defs)
qed

lemma value_index_less_8: "value_index d p < 8"
  by (cases d; cases p; simp add: value_index_def)

text \<open>
  Claim C9. With two bars per side, a positive \<open>max_number\<close> and a vector of 8 values
  that all lie between 0 and \<open>max_number\<close>, every rectangle of the glyph lies inside the
  square from 0 to \<open>total_width = number_of_bars * bar_width + 2 * bar_length\<close> in both
  coordinates, and the bars grow from the center square outward: for every direction
  and phase the edge of the data bar that faces the center lies on the side of the
  center square facing that direction, the bar extends from there by the scaled value
  \<open>value * bar_length / max_number\<close>, which is not negative, and across its direction
  the bar stays within the span of the center square. Being inside the square, no bar
  passes the edges of the enclosing square.
\<close>

theorem rectangles_inside_square:
  assumes len: "length data = 8" and mx: "0 < max_number"
    and rng: "\<forall>v \<in> set data. 0 \<le> v \<and> v \<le> max_number"
  shows "\<exists>ps bar sq. radial_bars data 2 max_number date shade = Inr ps
     \<and> list_all (inside (2 * 15 + 2 * 50)) ps
     \<and> data_bar_at ps d p = Rect bar \<and> center_square_at ps = Rect sq
     \<and> near_edge d bar = square_side d sq
     \<and> bar_extent d (Rect bar) = Some (data ! value_index d p * 50 / max_number)
     \<and> 0 \<le> data ! value_index d p * 50 / max_number
     \<and> (\<exists>cs ce s0 s1. cross_start d bar = Some cs \<and> cross_end d bar = Some ce
          \<and> cross_start d sq = Some s0 \<and> cross_end d sq = Some s1 \<and> s0 \<le> cs \<and> ce \<le> s1)"
proof -
  obtain ps where ps: "radial_bars data 2 max_number date shade = Inr ps"
    and ins: "list_all (inside (2 * 15 + 2 * 50)) ps"
    using rectangles_all_inside [OF len mx rng] by blast
  obtain ps' bar sq where anch: "radial_bars data 2 max_number date shade = Inr ps'"
     "data_bar_at ps' d p = Rect bar" "center_square_at ps' = Rect sq"
     "near_edge d bar = square_side d sq"
     "bar_extent d (Rect bar) = Some (data ! value_index d p * 50 / max_number)"
     "\<exists>cs ce s0 s1. cross_start d bar = Some cs \<and> cross_end d bar = Some ce
          \<and> cross_start d sq = Some s0 \<and> cross_end d sq = Some s1 \<and> s0 \<le> cs \<and> ce \<le> s1"
    using data_bars_anchored [OF len mx, of date shade d p] by blast
  have same: "ps' = ps" using ps anch(1) by simp
  have "data ! value_index d p \<in> set data"
    using len value_index_less_8 [of d p] by simp
  then have "0 \<le> data ! value_index d p" using rng by blast
  then have nonneg: "0 \<le> data ! value_index d p * 50 / max_number" using mx by simp
  show ?thesis using ps ins anch(2-6) nonneg unfolding same by blast
qed

text \<open>The Down-pre bar of the vector \<open>[0,5,10,20,0,0,15,3]\<close>, of length 37.5.\<close>

theorem rectangles_inside_square_witness:
  "length [0, 5, 10, 20, 0, 0, 15, 3 :: rat] = 8 \<and> (0 :: rat) < 20
   \<and> list_all (\<lambda>v. 0 \<le> v \<and> v \<le> 20) [0, 5, 10, 20, 0, 0, 15, 3 :: rat]
   \<and> (\<exists>ps bar sq. radial_bars [0, 5, 10, 20, 0, 0, 15, 3] 2 20 27 0 = Inr ps
     \<and> list_all (inside (2 * 15 + 2 * 50)) ps
     \<and> data_bar_at ps DirDown Pre = Rect bar \<and> center_square_at ps = Rect sq
     \<and> near_edge DirDown bar = square_side DirDown sq
     \<and> bar_extent DirDown (Rect bar) = Some (75 / 2)
     \<and> (\<exists>cs ce s0 s1. cross_start DirDown bar = Some cs \<and> cross_end DirDown bar = Some ce
          \<and> cross_start DirDown sq = Some s0 \<and> cross_end DirDown sq = Some s1
          \<and> s0 \<le> cs \<and> ce \<le> s1))"
  using rectangles_inside_square [where data = "[0, 5, 10, 20, 0, 0, 15, 3]"
      and max_number = 20 and date = 27 and shade = 0 and d = DirDown and p = Pre]
  by (simp add: value_index_def)

text \<open>
  Claim C10. For every direction and phase the placeholder is \<open>bar_width = 15\<close> thick
  across its direction and the data bar \<open>bar_width - 1\<close>: one less than the placeholder
  under it.
\<close>

theorem data_bar_one_thinner:
  "\<exists>ps. radial_bars data number_of_bars max_number date shade = Inr ps
    \<and> bar_thickness d (placeholder_at ps d p) = Some 15
    \<and> bar_thickness d (data_bar_at ps d p) = Some (15 - 1)"
  by (cases d; cases p; simp add: radial_bars_unfold placeholder_at_def data_bar_at_def)

subsection \<open>The linear scale\<close>

text \<open>
  Claim C7. For \<open>max > 0\<close>, \<open>L \<ge> 0\<close> and \<open>0 \<le> v1 < v2 \<le> max\<close> the scale from \<open>[0, max]\<close> to
  \<open>[0, L]\<close> maps \<open>v1\<close> to a length that is at most the length of \<open>v2\<close>, and it maps 0 to 0
  and \<open>max\<close> to \<open>L\<close>.
\<close>

theorem value_scale_monotone:
  assumes "0 < mx" "0 \<le> L" "0 \<le> v1" "v1 < v2" "v2 \<le> mx"
  shows "\<exists>f a b. scale_linear 0 mx 0 L = Inr f
     \<and> f (Some v1) = Some a \<and> f (Some v2) = Some b \<and> a \<le> b
     \<and> f (Some 0) = Some 0 \<and> f (Some mx) = Some L"
proof -
  have "v1 * L \<le> v2 * L" using assms by (simp add: mult_right_mono)
  then have "v1 * L / mx \<le> v2 * L / mx" using assms by (simp add: divide_right_mono)
  then show ?thesis using assms by (simp add: scale_linear_def interpolate_def)
qed

theorem value_scale_monotone_witness:
  "(0::rat) < 20 \<and> (0::rat) \<le> 50 \<and> (0::rat) \<le> 5 \<and> (5::rat) < 15 \<and> (15::rat) \<le> 20
  \<and> (\<exists>f a b. scale_linear 0 20 0 50 = Inr f
     \<and> f (Some 5) = Some a \<and> f (Some 15) = Some b \<and> a \<le> b
     \<and> f (Some 0) = Some 0 \<and> f (Some 20) = Some 50)"
  using value_scale_monotone [of 20 50 5 15] by simp

subsection \<open>The month\<close>

text \<open>
  Claim C5. The month is drawn in 5 rows of 7 columns: 35 glyphs are appended, and the
  glyph of row \<open>i\<close> and column \<open>j\<close>, the one appended at position \<open>i*7 + j\<close>, is what
  \<open>radial_bars\<close> returns for the vector \<open>data[i*7 + j]\<close> and the date \<open>dates[j*5 + i]\<close>.
\<close>

theorem grid_traversal:
  assumes "i < 5" and "j < 7"
  shows "\<exists>chart. drawGraphsForMonthlyData rnd = Inr chart \<and> length chart = 35
     \<and> radial_bars (fst (getDataForMonth 8 20 rnd 0) ! (i * 7 + j)) 2 20 (dates ! (j * 5 + i)) 0
         = Inr (chart ! (i * 7 + j))"
proof -
  let ?data = "fst (getDataForMonth 8 20 rnd 0)"
  let ?G = "\<lambda>i' j'. projr (radial_bars (?data ! (i' * 7 + j')) (of_nat 2) 20
                                 (dates ! (j' * 5 + i')) 0)"
  let ?rows = "map (\<lambda>i'. map (?G i') [0..<7]) [0..<5]"
  have len: "length ?data = 35" by (rule getDataForMonth_length)
  have "for_i 2 20 0 ?data 0 [] = Inr ([] @ concat ?rows)"
    using len by (intro for_i_eq) simp_all
  then have draw: "drawGraphsForMonthlyData rnd = Inr (concat ?rows)"
    by (simp add: drawGraphsForMonthlyData_def)
  have rows: "list_all (\<lambda>r. length r = 7) ?rows" by (simp add: list_all_iff)
  have "length (concat ?rows) = 35" using length_concat_rows [OF rows] by simp
  moreover have "concat ?rows ! (i * 7 + j) = ?G i j"
    using nth_concat_rows [OF rows, of i j] assms by simp
  moreover obtain g where
    "radial_bars (?data ! (i * 7 + j)) 2 20 (dates ! (j * 5 + i)) 0 = Inr g"
    using radial_bars_returns by blast
  ultimately show ?thesis using draw by simp
qed

text \<open>Row 2, column 3: the vector \<open>data[17]\<close> and the date \<open>dates[17] = 13\<close>.\<close>

theorem grid_traversal_witness:
  "(2::nat) < 5 \<and> (3::nat) < 7 \<and> dates ! (3 * 5 + 2) = 13
   \<and> (\<exists>chart. drawGraphsForMonthlyData (\<lambda>k. 3 / 4) = Inr chart \<and> length chart = 35
     \<and> radial_bars (fst (getDataForMonth 8 20 (\<lambda>k. 3 / 4) 0) ! (2 * 7 + 3)) 2 20
          (dates ! (3 * 5 + 2)) 0
         = Inr (chart ! (2 * 7 + 3)))"
  using grid_traversal [of 2 3 "\<lambda>k. 3 / 4"] by (simp add: dates_def)

text \<open>
  Claim C8 says that every number \<open>randomNumbers\<close> returns is an integer from 0 up to,
  but not including, \<open>max_number\<close>. For \<open>max_number = 1\<close> and a draw of \<open>2^-21\<close>, which
  lies in \<open>[0, 1)\<close>, the product is \<open>4.76837158203125e-7\<close> as a string, and \<open>parseInt\<close>
  reads 4 from it.
\<close>

theorem randomNumbers_small_draw:
  "(0::rat) \<le> 1 / 2097152 \<and> (1::rat) / 2097152 < 1
   \<and> randomNumbers 1 1 (\<lambda>k. 1 / 2097152) 0 = ([4], 1) \<and> \<not> (4 < (1::rat))"
  by code_simp

end
